theory Spec2Isabelle
  imports Complex_Main "HOL-Library.Word" "HOL-Library.Monad_Syntax"
begin

section \<open>Lunar Lander: terrain construction, collision detection and scoring\<close>

text \<open>
  A shallow embedding of the terrain loader (GameInitialization.c: \<open>readVertexList\<close>,
  \<open>buildSlopeMap\<close>, \<open>buildFHeightMap\<close>, \<open>buildHeightMap\<close>, \<open>findLandingStrips\<close>) and of
  the collision code (GameFunctions.c: \<open>collisionDetected\<close>, \<open>isLandingSpeed\<close>,
  \<open>isFlatLand\<close>, \<open>applyCollision\<close>, \<open>gameOver\<close>, \<open>getVelocity\<close>).

  Conventions.
  \<^item> \<open>Uint16\<close> is \<open>16 word\<close>, \<open>Uint32\<close> is \<open>32 word\<close>; a C \<open>int\<close> is a HOL \<open>int\<close> (the
    parser only lets non-negative coordinates through, and the loader only subtracts two
    of them or adds 1 to one below the level width, so no \<open>int\<close> overflows).
  \<^item> The singly linked lists (Vertex, Flat) are HOL lists in link order.
  \<^item> \<open>float\<close> and \<open>double\<close> are idealised as \<open>real\<close>. The concrete evaluations below
    only add and compare values that the machine arithmetic holds exactly (small
    integers and 3/2); the one inexact quotient that occurs, \<open>-10/899\<close>, is only tested
    for being nonzero.
  \<^item> A call of \<open>exit\<close> is a left injection carrying the exit code; reading through a NULL
    pointer is the fault \<open>NULL_DEREFERENCE\<close>, and following a pointer field that was never
    assigned is the fault \<open>UNINITIALISED_POINTER\<close>.
\<close>

subsection \<open>GameObjects.h\<close>

record Vertex =
  vertex_X :: int
  vertex_Y :: int

record Flat =
  flat_X :: int
  flat_Y :: int
  flat_length :: "16 word"
  scoreModifier :: "16 word"

record Terrain =
  firstVertex :: "Vertex list"
  firstFlat :: "Flat list"
  heightMap :: "16 word list"

record Lander =
  lander_X :: "16 word"
  lander_Y :: "16 word"
  lander_length :: "16 word"
  lander_height :: "16 word"
  vertVelocity :: real
  horVelocity :: real

record GameState =
  lander :: Lander
  levelWidth :: "16 word"
  levelHeight :: "16 word"
  terrain :: Terrain
  timeStart :: "32 word"
  timeElapsed :: "32 word"
  score :: "16 word"
  fuel :: "16 word"

subsection \<open>Constants of GameInitialization.h and GameFunctions.h\<close>

datatype exit_code =
    EXIT_SUCCESS | EXIT_SDLINIT_FAIL | EXIT_SDLWAIT_FAIL | EXIT_FOPEN_FAIL
  | EXIT_BADFILE_FAIL | EXIT_EMPTYFILE_FAIL | EXIT_MAP_FAIL | EXIT_NO_VERTICES_FAIL
  | EXIT_SOUND_FAIL | NULL_DEREFERENCE | UNINITIALISED_POINTER

definition FUEL_START :: int where "FUEL_START = 1000"
definition TOP_SCORE_TIER :: int where "TOP_SCORE_TIER = 5"
definition FLAT_LAND_BASE :: int where "FLAT_LAND_BASE = 24"
definition FLAT_LAND_INCREMENT :: int where "FLAT_LAND_INCREMENT = 8"
definition LANDING_THRESHOLD :: int where "LANDING_THRESHOLD = 1"

subsection \<open>readVertexList\<close>

text \<open>
  The file is given by the pairs that the successive calls
  \<open>fscanf(file, "%d %d\n", &X, &Y)\<close> deliver while they return 2 (so the text
  \<open>"0 0\n899 0\n"\<close> is \<open>[(0, 0), (899, 0)]\<close>); \<open>None\<close> is a file that \<open>fopen\<close> cannot open.
  The loop state is \<open>prevX\<close> and the list built so far (\<open>[]\<close> while \<open>current\<close> is NULL).
  \<open>prevX\<close> is assigned in the first-vertex branch only, as in the source. The closing
  test \<open>current->X != levelWidth - 1 || current->Y != first->Y\<close> is written as its two
  disjuncts in order.

  Both rejection branches call \<open>freeVertexList(first)\<close> before \<open>exit(EXIT_BADFILE_FAIL)\<close>.
  That function starts with \<open>prev = first->next; current = prev->next;\<close>. The static
  first vertex comes from \<open>main\<close> with \<open>next = NULL\<close>, and the loop assigns \<open>first->next\<close>
  only when it allocates a second vertex: while the list built so far has at most one
  vertex, \<open>prev\<close> is NULL and \<open>prev->next\<close> reads through it. With two or more vertices
  the walk reaches the vertex allocated last, whose \<open>next\<close> field is not assigned before
  the end of \<open>readVertexList\<close>, and follows it (only if that cell happens to hold NULL
  does the process go on to \<open>exit(EXIT_BADFILE_FAIL)\<close>).
\<close>

definition freeVertexList_on_reject :: "Vertex list \<Rightarrow> exit_code" where
  "freeVertexList_on_reject vs =
     (if length vs \<le> 1 then NULL_DEREFERENCE else UNINITIALISED_POINTER)"

fun readVertexLoop :: "int \<Rightarrow> int \<Rightarrow> Vertex list \<Rightarrow> (int \<times> int) list \<Rightarrow> exit_code + Vertex list" where
  "readVertexLoop W prevX vs [] = Inr vs"
| "readVertexLoop W prevX vs ((x, y) # rest) =
     (if x < 0 \<or> y < 0 \<or> x \<ge> W then Inl (freeVertexList_on_reject vs)
      else if x < prevX then Inl (freeVertexList_on_reject vs)
      else if prevX = - 1 then
        (if x \<noteq> 0
         then readVertexLoop W x
                [\<lparr>vertex_X = 0, vertex_Y = 0\<rparr>, \<lparr>vertex_X = x, vertex_Y = y\<rparr>] rest
         else readVertexLoop W x [\<lparr>vertex_X = x, vertex_Y = y\<rparr>] rest)
      else readVertexLoop W prevX (vs @ [\<lparr>vertex_X = x, vertex_Y = y\<rparr>]) rest)"

definition readVertexList :: "(int \<times> int) list option \<Rightarrow> 16 word \<Rightarrow> exit_code + Vertex list" where
  "readVertexList file lw =
     (case file of
        None \<Rightarrow> Inl EXIT_FOPEN_FAIL
      | Some pairs \<Rightarrow>
          (case readVertexLoop (uint lw) (- 1) [] pairs of
             Inl e \<Rightarrow> Inl e
           | Inr vs \<Rightarrow>
               (if vs = [] then Inl EXIT_EMPTYFILE_FAIL
                else if vertex_X (last vs) \<noteq> uint lw - 1
                then Inr (vs @ [\<lparr>vertex_X = uint lw - 1, vertex_Y = vertex_Y (hd vs)\<rparr>])
                else if vertex_Y (last vs) \<noteq> vertex_Y (hd vs)
                then Inr (vs @ [\<lparr>vertex_X = uint lw - 1, vertex_Y = vertex_Y (hd vs)\<rparr>])
                else Inr vs)))"

subsection \<open>findLandingStrips\<close>

text \<open>
  The score modifier of a strip, lines 559 to 580 of the function. \<open>length\<close> and
  \<open>scoreModifier\<close> are \<open>Uint16\<close> fields: the right-hand sides are computed in \<open>int\<close> and
  stored modulo \<open>2 ^ 16\<close>, and the two clamps compare the stored unsigned value.
\<close>

definition flatScoreModifier :: "16 word \<Rightarrow> 16 word" where
  "flatScoreModifier len =
     (let m0 = (if uint len < FLAT_LAND_BASE
                then (word_of_int (TOP_SCORE_TIER + 1) :: 16 word)
                else word_of_int (TOP_SCORE_TIER - ((uint len - FLAT_LAND_BASE) div FLAT_LAND_INCREMENT)));
          m1 = (if uint m0 < 1 then 1 else m0);
          m2 = (if uint m1 > TOP_SCORE_TIER then 0 else m1)
      in m2)"

text \<open>The inner loop: \<open>while (end->next != NULL && end->next->Y == end->Y) end = end->next\<close>.\<close>

fun flatEnd :: "Vertex \<Rightarrow> Vertex list \<Rightarrow> Vertex \<times> Vertex list" where
  "flatEnd e [] = (e, [])"
| "flatEnd e (n # rest) =
     (if vertex_Y n = vertex_Y e then flatEnd n rest else (e, n # rest))"

lemma flatEnd_length: "length (snd (flatEnd e vs)) \<le> length vs"
  by (induction vs arbitrary: e) (auto simp: le_SucI)

text \<open>The outer loop, from \<open>current\<close> and the list behind \<open>current->next\<close>.\<close>

function findFlats :: "Vertex \<Rightarrow> Vertex list \<Rightarrow> Flat list" where
  "findFlats cur [] = []"
| "findFlats cur (n # rest) =
     (if vertex_Y cur = vertex_Y n then
        (let end = fst (flatEnd n rest);
             len = (word_of_int (vertex_X end - vertex_X cur) :: 16 word)
         in \<lparr>flat_X = vertex_X cur, flat_Y = vertex_Y cur, flat_length = len,
              scoreModifier = flatScoreModifier len\<rparr> # findFlats end (snd (flatEnd n rest)))
      else findFlats n rest)"
  by pat_completeness auto
termination
  by (relation "measure (\<lambda>p. length (snd p))") (auto simp: flatEnd_length less_Suc_eq_le)

text \<open>
  \<open>findLandingStrips\<close> on the vertex list of the terrain. \<open>flat0\<close> is the caller's static
  first Flat: with an empty vertex list the function returns early and leaves the list
  as that one node with \<open>X = -1\<close>. Otherwise the result is the list of the strips found
  (\<open>firstFlat = NULL\<close>, the empty list, when none was found).
\<close>

definition findLandingStrips :: "Flat \<Rightarrow> Vertex list \<Rightarrow> Flat list" where
  "findLandingStrips flat0 vs =
     (case vs of
        [] \<Rightarrow> [flat0\<lparr>flat_X := - 1\<rparr>]
      | current # rest \<Rightarrow> findFlats current rest)"

subsection \<open>buildSlopeMap\<close>

text \<open>
  The two variable-length arrays \<open>float fHeightMap[levelWidth]\<close> and
  \<open>float slopeMap[levelWidth]\<close> of \<open>buildHeightMap\<close> are functions from the index; their
  contents on entry are not initialised by the source, so they are parameters of the
  model. Every index the loader uses lies in \<open>[0, levelWidth)\<close>, since \<open>readVertexList\<close>
  only accepts \<open>0 \<le> X < levelWidth\<close>.

  The loop \<open>for (int x = a; x < b; x++) slopeMap[x] = slope;\<close>:
\<close>

definition fillSlope :: "(nat \<Rightarrow> real) \<Rightarrow> int \<Rightarrow> int \<Rightarrow> real \<Rightarrow> (nat \<Rightarrow> real)" where
  "fillSlope slopeMap a b slope = fold (\<lambda>x m. m(nat x := slope)) [a..b - 1] slopeMap"

text \<open>
  The inner loop of the undefined-slope branch,
  \<open>while (current->X == current->next->X) { ... current = current->next; }\<close>.
  It reads \<open>current->next->X\<close> without a NULL test: a run of equal X that reaches the end
  of the list reads through NULL. The result is \<open>maxY\<close>, \<open>current\<close> and the list behind
  \<open>current->next\<close>.
\<close>

fun undefinedSlopeEnd :: "int \<Rightarrow> Vertex \<Rightarrow> Vertex list \<Rightarrow> exit_code + (int \<times> Vertex \<times> Vertex list)" where
  "undefinedSlopeEnd maxY current [] = Inl NULL_DEREFERENCE"
| "undefinedSlopeEnd maxY current (n # rest) =
     (if vertex_X current = vertex_X n
      then undefinedSlopeEnd (if vertex_Y n > maxY then vertex_Y n else maxY) n rest
      else Inr (maxY, current, n # rest))"

lemma undefinedSlopeEnd_length:
  "undefinedSlopeEnd m c vs = Inr (m', c', vs') \<Longrightarrow> length vs' \<le> length vs"
  by (induction vs arbitrary: m c) (auto split: if_splits simp: le_SucI)

function buildSlopeLoop ::
  "int \<Rightarrow> (nat \<Rightarrow> real) \<Rightarrow> (nat \<Rightarrow> real) \<Rightarrow> Vertex \<Rightarrow> Vertex list
     \<Rightarrow> exit_code + ((nat \<Rightarrow> real) \<times> (nat \<Rightarrow> real))" where
  "buildSlopeLoop W slopeMap fHeightMap current [] = Inr (slopeMap, fHeightMap)"
| "buildSlopeLoop W slopeMap fHeightMap current (n # rest) =
     (if vertex_X current = vertex_X n then
        (case undefinedSlopeEnd
                (if vertex_Y current \<ge> vertex_Y n then vertex_Y current else vertex_Y n) n rest of
           Inl e \<Rightarrow> Inl e
         | Inr (maxY, cur, after) \<Rightarrow>
             (case after of
                [] \<Rightarrow> Inl NULL_DEREFERENCE
              | nxt # rest' \<Rightarrow>
                  (let fh1 = fHeightMap(nat (vertex_X cur) := real_of_int maxY);
                       sm1 = slopeMap(nat (vertex_X cur) := 0);
                       fh2 = (if vertex_X cur < W - 1
                              then fh1(nat (vertex_X cur + 1) := - 1) else fh1);
                       slope = real_of_int (vertex_Y nxt - vertex_Y cur) /
                               real_of_int (vertex_X nxt - vertex_X cur);
                       sm2 = fillSlope sm1 (vertex_X cur + 1) (vertex_X nxt) slope
                   in buildSlopeLoop W sm2 fh2 nxt rest')))
      else
        (let slope = real_of_int (vertex_Y n - vertex_Y current) /
                     real_of_int (vertex_X n - vertex_X current);
             sm1 = fillSlope slopeMap (vertex_X current) (vertex_X n) slope
         in buildSlopeLoop W sm1 fHeightMap n rest))"
  by pat_completeness auto
termination
  by (relation "measure (\<lambda>p. length (snd (snd (snd (snd p)))))")
     (auto dest!: undefinedSlopeEnd_length)

definition buildSlopeMap ::
  "(nat \<Rightarrow> real) \<Rightarrow> (nat \<Rightarrow> real) \<Rightarrow> Vertex list \<Rightarrow> 16 word
     \<Rightarrow> exit_code + ((nat \<Rightarrow> real) \<times> (nat \<Rightarrow> real))" where
  "buildSlopeMap slopeMap fHeightMap vs lw =
     (case vs of
        [] \<Rightarrow> Inl NULL_DEREFERENCE
      | first # rest \<Rightarrow> buildSlopeLoop (uint lw) slopeMap fHeightMap first rest)"

subsection \<open>buildFHeightMap\<close>

text \<open>
  The loop \<open>for (int x = 1; x < levelWidth; x++)\<close>; the undefined-slope branch does
  \<open>x++; continue;\<close>, so it advances by two.
\<close>

function fHeightLoop :: "nat \<Rightarrow> (nat \<Rightarrow> real) \<Rightarrow> (nat \<Rightarrow> real) \<Rightarrow> nat \<Rightarrow> (nat \<Rightarrow> real)" where
  "fHeightLoop W slopeMap fHeightMap x =
     (if x < W then
        (if slopeMap x = 0 \<and> x < W - 1 \<and> fHeightMap (x + 1) = - 1
         then fHeightLoop W slopeMap
                (fHeightMap(x + 1 := fHeightMap x + slopeMap (x + 1))) (x + 2)
         else fHeightLoop W slopeMap
                (fHeightMap(x := fHeightMap (x - 1) + slopeMap (x - 1))) (x + 1))
      else fHeightMap)"
  by pat_completeness auto
termination
  by (relation "measure (\<lambda>(W, slopeMap, fHeightMap, x). W - x)") auto

declare fHeightLoop.simps [simp del]

definition buildFHeightMap ::
  "(nat \<Rightarrow> real) \<Rightarrow> (nat \<Rightarrow> real) \<Rightarrow> Vertex list \<Rightarrow> 16 word \<Rightarrow> exit_code + (nat \<Rightarrow> real)" where
  "buildFHeightMap fHeightMap slopeMap vs lw =
     (case vs of
        [] \<Rightarrow> Inl NULL_DEREFERENCE
      | first # rest \<Rightarrow>
          (if vertex_X first \<noteq> 0 then Inl EXIT_MAP_FAIL
           else Inr (fHeightLoop (unat lw) slopeMap
                       (fHeightMap(0 := real_of_int (vertex_Y first))) 1)))"

subsection \<open>buildHeightMap and initializeGameState\<close>

text \<open>
  \<open>heightMap[x] = (Uint16)(ceil(fHeightMap[x]))\<close>. The result is the height map together
  with the vertex list that \<open>first\<close> heads. (A ceiling outside \<open>[0, 65535]\<close> has no defined
  conversion in C; the model reduces it modulo \<open>2 ^ 16\<close>.)
\<close>

definition buildHeightMap ::
  "(nat \<Rightarrow> real) \<Rightarrow> (nat \<Rightarrow> real) \<Rightarrow> (int \<times> int) list option \<Rightarrow> 16 word
     \<Rightarrow> exit_code + (16 word list \<times> Vertex list)" where
  "buildHeightMap fHeightMap0 slopeMap0 file lw =
     (case readVertexList file lw of
        Inl e \<Rightarrow> Inl e
      | Inr vs \<Rightarrow>
          (case buildSlopeMap slopeMap0 fHeightMap0 vs lw of
             Inl e \<Rightarrow> Inl e
           | Inr (slopeMap, fHeightMap1) \<Rightarrow>
               (case buildFHeightMap fHeightMap1 slopeMap vs lw of
                  Inl e \<Rightarrow> Inl e
                | Inr fHeightMap \<Rightarrow>
                    Inr (map (\<lambda>x. word_of_int \<lceil>fHeightMap x\<rceil>) [0..<unat lw], vs))))"

definition LEVEL_WIDTH :: "16 word" where "LEVEL_WIDTH = 900"
definition LEVEL_HEIGHT :: "16 word" where "LEVEL_HEIGHT = 500"
definition LANDER_X_START :: "16 word" where "LANDER_X_START = 100"
definition LANDER_Y_START :: "16 word" where "LANDER_Y_START = 375"
definition LANDER_LENGTH :: "16 word" where "LANDER_LENGTH = 20"
definition LANDER_HEIGHT :: "16 word" where "LANDER_HEIGHT = 25"

text \<open>
  \<open>initializeGameState\<close>, without the window, renderer and focus fields. \<open>flat0\<close> is the
  static first Flat that \<open>main\<close> passes in.
\<close>

definition initializeGameState ::
  "(nat \<Rightarrow> real) \<Rightarrow> (nat \<Rightarrow> real) \<Rightarrow> Flat \<Rightarrow> (int \<times> int) list option \<Rightarrow> exit_code + GameState" where
  "initializeGameState fHeightMap0 slopeMap0 flat0 file =
     (case buildHeightMap fHeightMap0 slopeMap0 file LEVEL_WIDTH of
        Inl e \<Rightarrow> Inl e
      | Inr (hm, vs) \<Rightarrow>
          Inr \<lparr>lander = \<lparr>lander_X = LANDER_X_START, lander_Y = LANDER_Y_START,
                          lander_length = LANDER_LENGTH, lander_height = LANDER_HEIGHT,
                          vertVelocity = 0, horVelocity = 0\<rparr>,
               levelWidth = LEVEL_WIDTH, levelHeight = LEVEL_HEIGHT,
               terrain = \<lparr>firstVertex = vs, firstFlat = findLandingStrips flat0 vs,
                           heightMap = hm\<rparr>,
               timeStart = - 1, timeElapsed = 0, score = 0,
               fuel = word_of_int FUEL_START\<rparr>)"

subsection \<open>GameFunctions.c: collision detection\<close>

text \<open>
  An array read outside the height map is \<open>None\<close>, as is the remainder by a level width
  of 0. \<open>(int)\<close> applied to a \<open>double\<close> truncates towards zero.
\<close>

datatype sound = Ding | Boom

definition getVelocity :: "GameState \<Rightarrow> real" where
  "getVelocity state =
     sqrt (vertVelocity (lander state) * vertVelocity (lander state)
           + horVelocity (lander state) * horVelocity (lander state))"

definition int_of_double :: "real \<Rightarrow> int" where
  "int_of_double r = (if 0 \<le> r then \<lfloor>r\<rfloor> else \<lceil>r\<rceil>)"

definition isLandingSpeed :: "GameState \<Rightarrow> bool" where
  "isLandingSpeed state = (int_of_double (getVelocity state) \<le> LANDING_THRESHOLD)"

definition heightAt :: "GameState \<Rightarrow> int \<Rightarrow> 16 word option" where
  "heightAt state x =
     (if 0 \<le> x \<and> x < int (length (heightMap (terrain state)))
      then Some (heightMap (terrain state) ! nat x) else None)"

definition isFlatLand :: "GameState \<Rightarrow> int \<Rightarrow> int \<Rightarrow> int \<Rightarrow> bool option" where
  "isFlatLand state x1 x2 x3 =
     do {
       h1 \<leftarrow> heightAt state x1;
       h2 \<leftarrow> heightAt state x2;
       if h1 = h2 then do { h3 \<leftarrow> heightAt state x3; Some (h1 = h3) } else Some False
     }"

text \<open>
  The test \<open>isLandingSpeed(state) && isFlatLand(state, leftX, middleX, rightX)\<close> that each
  of the three blocks of \<open>collisionDetected\<close> makes, with the value it stores in
  \<open>*landingType\<close>.
\<close>

definition landingKind :: "GameState \<Rightarrow> int \<Rightarrow> int \<Rightarrow> int \<Rightarrow> int option" where
  "landingKind state leftX middleX rightX =
     (if isLandingSpeed state
      then do { flat \<leftarrow> isFlatLand state leftX middleX rightX; Some (if flat then 1 else 2) }
      else Some 2)"

text \<open>The guard of one block: the sample is in range and the lander is at or below it.\<close>

definition sampleHit :: "GameState \<Rightarrow> int \<Rightarrow> bool option" where
  "sampleHit state x =
     (if 0 \<le> x \<and> x < uint (levelWidth state)
      then do { h \<leftarrow> heightAt state x; Some (lander_Y (lander state) \<le> h) }
      else Some False)"

text \<open>
  \<open>collisionDetected state landingType\<close> returns the function's result, the content of
  the buffer \<open>*landingType\<close> afterwards, and the sound it plays (the left and middle
  blocks play one, the right block does not).
\<close>

definition collisionDetected :: "GameState \<Rightarrow> int \<Rightarrow> (bool \<times> int \<times> sound option) option" where
  "collisionDetected state landingType =
     (if levelWidth state = 0 then None
      else
        (let leftX = uint (lander_X (lander state));
             middleX = (leftX + uint (lander_length (lander state)) div 2)
                         mod uint (levelWidth state);
             rightX = (leftX + uint (lander_length (lander state))) mod uint (levelWidth state)
         in do {
           hitLeft \<leftarrow> sampleHit state leftX;
           if hitLeft then do {
             k \<leftarrow> landingKind state leftX middleX rightX;
             Some (True, k, Some (if k = 1 then Ding else Boom)) }
           else do {
             hitMiddle \<leftarrow> sampleHit state middleX;
             if hitMiddle then do {
               k \<leftarrow> landingKind state leftX middleX rightX;
               Some (True, k, Some (if k = 1 then Ding else Boom)) }
             else do {
               hitRight \<leftarrow> sampleHit state rightX;
               if hitRight then do {
                 k \<leftarrow> landingKind state leftX middleX rightX;
                 Some (True, k, None) }
               else Some (False, landingType, None) } } }))"

subsection \<open>GameFunctions.c: collision resolution\<close>






subsection \<open>Project03\_01.c: what main passes in\<close>

text \<open>The static first Flat of \<open>main\<close> (\<open>scoreModifier = -1\<close> in a \<open>Uint16\<close>).\<close>

definition main_firstFlat :: Flat where
  "main_firstFlat = \<lparr>flat_X = 0, flat_Y = 0, flat_length = 0, scoreModifier = - 1\<rparr>"

subsection \<open>The detection contract in the words of the specification\<close>

text \<open>
  Section 4.3 of the specification: three samples on the bottom edge, left, middle and
  right, each taken modulo the level width and tried in that order; the first one at
  which the lander's y is at most the height registers the collision.
\<close>

datatype sample = LeftSample | MiddleSample | RightSample

definition spec_samples :: "GameState \<Rightarrow> (sample \<times> nat) list" where
  "spec_samples state =
     (let x = unat (lander_X (lander state));
          len = unat (lander_length (lander state));
          w = unat (levelWidth state)
      in [(LeftSample, x mod w), (MiddleSample, (x + len div 2) mod w),
          (RightSample, (x + len) mod w)])"

definition spec_first_hit :: "GameState \<Rightarrow> (sample \<times> nat) option" where
  "spec_first_hit state =
     find (\<lambda>(s, x). lander_Y (lander state) \<le> heightMap (terrain state) ! x)
       (spec_samples state)"

text \<open>
  The classification on the three sampled heights, with the source's speed test, and the
  whole contract: result, \<open>*landingType\<close> afterwards, and the sound played.
\<close>

definition sampled_kind :: "GameState \<Rightarrow> int" where
  "sampled_kind state =
     (let hm = heightMap (terrain state);
          xl = snd (spec_samples state ! 0);
          xm = snd (spec_samples state ! 1);
          xr = snd (spec_samples state ! 2)
      in if isLandingSpeed state \<and> hm ! xl = hm ! xm \<and> hm ! xl = hm ! xr then 1 else 2)"

definition spec_detect :: "GameState \<Rightarrow> int \<Rightarrow> bool \<times> int \<times> sound option" where
  "spec_detect state landingType =
     (case spec_first_hit state of
        None \<Rightarrow> (False, landingType, None)
      | Some (s, x) \<Rightarrow>
          (True, sampled_kind state,
           if s = RightSample then None
           else Some (if sampled_kind state = 1 then Ding else Boom)))"



subsection \<open>Game states used as concrete inputs\<close>

text \<open>
  A level of width 900 whose terrain is flat at height 0, with the lander resting on it at
  x = 100 and moving sideways at speed 3/2.
\<close>

definition fast_on_flat_state :: GameState where
  "fast_on_flat_state =
     \<lparr>lander = \<lparr>lander_X = 100, lander_Y = 0, lander_length = 20, lander_height = 25,
                 vertVelocity = 0, horVelocity = 3 / 2\<rparr>,
      levelWidth = 900, levelHeight = 500,
      terrain = \<lparr>firstVertex = [\<lparr>vertex_X = 0, vertex_Y = 0\<rparr>, \<lparr>vertex_X = 899, vertex_Y = 0\<rparr>],
                  firstFlat = [\<lparr>flat_X = 0, flat_Y = 0, flat_length = 899, scoreModifier = 0\<rparr>],
                  heightMap = replicate 900 0\<rparr>,
      timeStart = 0, timeElapsed = 0, score = 0, fuel = 1000\<rparr>"

text \<open>The same level with the lander at its start position, high above the ground.\<close>

definition hovering_state :: GameState where
  "hovering_state =
     fast_on_flat_state\<lparr>lander := \<lparr>lander_X = 100, lander_Y = 375, lander_length = 20,
                                     lander_height = 25, vertVelocity = 0, horVelocity = 0\<rparr>\<rparr>"

text \<open>
  A state whose lander x equals the level width (no tick produces it: \<open>applyTick\<close> keeps
  \<open>realX\<close> in \<open>[0, levelWidth)\<close>), over a terrain that is 10 high at column 0 only.
\<close>

definition offmap_state :: GameState where
  "offmap_state =
     \<lparr>lander = \<lparr>lander_X = 900, lander_Y = 5, lander_length = 20, lander_height = 25,
                 vertVelocity = 0, horVelocity = 0\<rparr>,
      levelWidth = 900, levelHeight = 500,
      terrain = \<lparr>firstVertex = [], firstFlat = [], heightMap = 10 # replicate 899 0\<rparr>,
      timeStart = 0, timeElapsed = 0, score = 0, fuel = 1000\<rparr>"

text \<open>
  The lander at x = 890 with length 20 in a level of width 900: its right end wraps to
  column 10, the only column where the terrain (height 50) reaches the lander (y = 20).
\<close>

definition wrap_state :: GameState where
  "wrap_state =
     \<lparr>lander = \<lparr>lander_X = 890, lander_Y = 20, lander_length = 20, lander_height = 25,
                 vertVelocity = 0, horVelocity = 0\<rparr>,
      levelWidth = 900, levelHeight = 500,
      terrain = \<lparr>firstVertex = [], firstFlat = [],
                  heightMap = replicate 10 0 @ 50 # replicate 889 0\<rparr>,
      timeStart = 0, timeElapsed = 0, score = 0, fuel = 1000\<rparr>"




section \<open>Properties\<close>

subsection \<open>Landing strips and score tiers\<close>

lemmas tier_defs =
  flatScoreModifier_def FLAT_LAND_BASE_def TOP_SCORE_TIER_def FLAT_LAND_INCREMENT_def Let_def

text \<open>
  The score modifier as a function of the strip length: the tier formula holds up to
  length 71; from length 72 on, \<open>5 - (length - 24) / 8\<close> is negative, its \<open>Uint16\<close> image
  is at least 57353, the test \<open>scoreModifier < 1\<close> fails and the test
  \<open>scoreModifier > TOP_SCORE_TIER\<close> resets the modifier to 0.
\<close>

lemma flatScoreModifier_uint:
  "uint (flatScoreModifier len) =
     (if uint len < 24 then 0
      else if uint len < 72 then max 1 (5 - (uint len - 24) div 8)
      else 0)"
proof -
  have b: "0 \<le> uint len" "uint len < 65536"
    using uint_lt2p [of len] by simp_all
  define q where "q = (uint len - 24) div 8"
  have m: "uint (word_of_int (5 - q) :: 16 word) = (5 - q) mod 65536"
    by (simp only: uint_word_of_int) simp
  consider "uint len < 24" | "24 \<le> uint len" "uint len < 72" | "72 \<le> uint len"
    by linarith
  then show ?thesis
  proof cases
    case 1
    then show ?thesis by (simp add: tier_defs)
  next
    case 2
    then have q: "0 \<le> q" "q \<le> 5" unfolding q_def by simp_all
    then have "(5 - q) mod 65536 = 5 - q" by simp
    with 2 m q show ?thesis unfolding tier_defs q_def [symmetric] by auto
  next
    case 3
    with b have q: "6 \<le> q" "q \<le> 8188" unfolding q_def by simp_all
    then have "(65541 - q) mod 65536 = 65541 - q"
      by simp
    moreover have "(5 - q) mod 65536 = (65541 - q) mod 65536"
      using mod_add_self2 [of "5 - q" 65536] by simp
    ultimately have "(5 - q) mod 65536 = 65541 - q"
      by simp
    with 3 m q show ?thesis unfolding tier_defs q_def [symmetric] by auto
  qed
qed

lemma flatScoreModifier_range: "uint (flatScoreModifier len) \<in> {0, 1, 2, 3, 4, 5}"
proof -
  have "0 \<le> max 1 (5 - (uint len - 24) div 8) \<and> max 1 (5 - (uint len - 24) div 8) \<le> 5"
    if "24 \<le> uint len"
    using that by (simp add: pos_imp_zdiv_nonneg_iff)
  then have "uint (flatScoreModifier len) \<le> 5"
    by (simp add: flatScoreModifier_uint)
  moreover have "0 \<le> uint (flatScoreModifier len)"
    by simp
  ultimately show ?thesis
    by (simp only: insert_iff empty_iff) arith
qed

text \<open>
  C1. The claim gives every strip of length at least 56 the tier 1. The file
  \<open>"0 0\n72 0\n450 50\n"\<close> is read as four vertices (the closing vertex \<open>(899, 0)\<close> is
  synthesised); its one strip runs from \<open>(0, 0)\<close> to \<open>(72, 0)\<close>, has length 72, and
  \<open>findLandingStrips\<close> gives it the score modifier 0, not \<open>max(1, 5 - 6) = 1\<close>.
\<close>

theorem C1_strip_of_length_72_has_tier_0:
  "readVertexList (Some [(0, 0), (72, 0), (450, 50)]) 900
     = Inr [\<lparr>vertex_X = 0, vertex_Y = 0\<rparr>, \<lparr>vertex_X = 72, vertex_Y = 0\<rparr>,
            \<lparr>vertex_X = 450, vertex_Y = 50\<rparr>, \<lparr>vertex_X = 899, vertex_Y = 0\<rparr>]
   \<and> findLandingStrips main_firstFlat
        [\<lparr>vertex_X = 0, vertex_Y = 0\<rparr>, \<lparr>vertex_X = 72, vertex_Y = 0\<rparr>,
         \<lparr>vertex_X = 450, vertex_Y = 50\<rparr>, \<lparr>vertex_X = 899, vertex_Y = 0\<rparr>]
     = [\<lparr>flat_X = 0, flat_Y = 0, flat_length = 72, scoreModifier = 0\<rparr>]"
  by code_simp

subsection \<open>The vertex parser\<close>

lemma buildHeightMap_Inr:
  assumes "readVertexList file lw = Inr (v # vs)"
    and "buildSlopeMap sm0 fh0 (v # vs) lw = Inr (sm, fh1)"
    and "vertex_X v = 0"
  shows "buildHeightMap fh0 sm0 file lw =
           Inr (map (\<lambda>x. word_of_int
                       \<lceil>fHeightLoop (unat lw) sm (fh1(0 := real_of_int (vertex_Y v))) 1 x\<rceil>)
                  [0..<unat lw], v # vs)"
  using assms by (simp add: buildHeightMap_def buildFHeightMap_def)

text \<open>
  The rejection branches: a file whose first vertex is bad is rejected while the list
  still consists of the static first vertex alone, and \<open>freeVertexList\<close> reads through
  its NULL \<open>next\<close> pointer before \<open>exit(EXIT_BADFILE_FAIL)\<close> is reached; so is a file whose
  second vertex is bad after a first vertex at x = 0.
\<close>

lemma reject_path_reads_through_null:
  "readVertexList (Some [(- 1, 0)]) 900 = Inl NULL_DEREFERENCE
   \<and> readVertexList (Some [(0, 0), (900, 0)]) 900 = Inl NULL_DEREFERENCE"
  by (simp add: readVertexList_def freeVertexList_on_reject_def)

text \<open>
  C2. The claim rejects every file in which some x is smaller than the x of the vertex
  before it. In \<open>"0 0\n10 5\n5 3\n"\<close> the third vertex has \<open>x = 5 < 10\<close>, yet
  \<open>readVertexList\<close> accepts the file (the test \<open>X < prevX\<close> compares with the x of the
  first vertex, the only value \<open>prevX\<close> is ever given), and \<open>buildHeightMap\<close> builds a
  height map of 900 columns from it, whatever the arrays held on entry.
\<close>

theorem C2_decreasing_x_is_accepted:
  "readVertexList (Some [(0, 0), (10, 5), (5, 3)]) 900
     = Inr [\<lparr>vertex_X = 0, vertex_Y = 0\<rparr>, \<lparr>vertex_X = 10, vertex_Y = 5\<rparr>,
            \<lparr>vertex_X = 5, vertex_Y = 3\<rparr>, \<lparr>vertex_X = 899, vertex_Y = 0\<rparr>]
   \<and> (\<exists>hm. buildHeightMap fh0 sm0 (Some [(0, 0), (10, 5), (5, 3)]) 900
           = Inr (hm, [\<lparr>vertex_X = 0, vertex_Y = 0\<rparr>, \<lparr>vertex_X = 10, vertex_Y = 5\<rparr>,
                       \<lparr>vertex_X = 5, vertex_Y = 3\<rparr>, \<lparr>vertex_X = 899, vertex_Y = 0\<rparr>])
              \<and> length hm = 900)"
proof -
  let ?vs = "[\<lparr>vertex_X = 0, vertex_Y = 0\<rparr>, \<lparr>vertex_X = 10, vertex_Y = 5\<rparr>,
              \<lparr>vertex_X = 5, vertex_Y = 3\<rparr>, \<lparr>vertex_X = 899, vertex_Y = 0\<rparr>]"
  have r: "readVertexList (Some [(0, 0), (10, 5), (5, 3)]) 900 = Inr ?vs"
    by (simp add: readVertexList_def)
  have "\<exists>sm fh1. buildSlopeMap sm0 fh0 ?vs 900 = Inr (sm, fh1)"
    by (simp add: buildSlopeMap_def Let_def)
  then obtain sm fh1 where s: "buildSlopeMap sm0 fh0 ?vs 900 = Inr (sm, fh1)"
    by blast
  from buildHeightMap_Inr [OF r s] r show ?thesis
    by simp
qed

subsection \<open>The height map\<close>

lemma fold_upto_apply:
  "0 \<le> a \<Longrightarrow> fold (\<lambda>x m. m(nat x := s)) [a..c] sm i
     = (if a \<le> int i \<and> int i \<le> c then s else sm i)"
proof (induction a c arbitrary: sm rule: upto.induct)
  case (1 a c)
  show ?case
  proof (cases "a \<le> c")
    case True
    have "fold (\<lambda>x m. m(nat x := s)) [a..c] sm i
                 = fold (\<lambda>x m. m(nat x := s)) [a + 1..c] (sm(nat a := s)) i"
      using True by (subst upto.simps) simp
    also have "\<dots> = (if a + 1 \<le> int i \<and> int i \<le> c then s else (sm(nat a := s)) i)"
      by (rule "1.IH" [OF True]) (use "1.prems" in linarith)
    also have "\<dots> = (if a \<le> int i \<and> int i \<le> c then s else sm i)"
      using "1.prems" True by (auto simp: nat_eq_iff)
    finally show ?thesis .
  next
    case False
    then show ?thesis by (subst upto.simps) auto
  qed
qed

lemma fillSlope_apply:
  "0 \<le> a \<Longrightarrow> fillSlope sm a b s i = (if a \<le> int i \<and> int i < b then s else sm i)"
  by (auto simp: fillSlope_def fold_upto_apply)

lemma fHeightLoop_done:
  "\<not> x < W \<Longrightarrow> fHeightLoop W sm fh x = fh"
  by (subst fHeightLoop.simps) (simp only: if_False)

lemma fHeightLoop_step:
  "x < W \<Longrightarrow> \<not> (sm x = 0 \<and> x < W - 1 \<and> fh (x + 1) = - 1)
     \<Longrightarrow> fHeightLoop W sm fh x = fHeightLoop W sm (fh(x := fh (x - 1) + sm (x - 1))) (x + 1)"
  by (subst fHeightLoop.simps) (simp only: if_True if_False)

lemma fHeightLoop_step_undefined:
  "x < W \<Longrightarrow> sm x = 0 \<and> x < W - 1 \<and> fh (x + 1) = - 1
     \<Longrightarrow> fHeightLoop W sm fh x = fHeightLoop W sm (fh(x + 1 := fh x + sm (x + 1))) (x + 2)"
  by (subst fHeightLoop.simps) simp

lemma fHeightLoop_below:
  "j < x \<Longrightarrow> fHeightLoop W sm fh x j = fh j"
proof (induction W sm fh x rule: fHeightLoop.induct)
  case (1 W sm fh x)
  show ?case
  proof (cases "x < W")
    case False
    then show ?thesis by (simp add: fHeightLoop_done)
  next
    case True
    show ?thesis
    proof (cases "sm x = 0 \<and> x < W - 1 \<and> fh (x + 1) = - 1")
      case u: True
      have "fHeightLoop W sm fh x j
              = fHeightLoop W sm (fh(x + 1 := fh x + sm (x + 1))) (x + 2) j"
        by (simp only: fHeightLoop_step_undefined [where x = x and W = W and sm = sm and fh = fh, OF True u])
      also have "\<dots> = (fh(x + 1 := fh x + sm (x + 1))) j"
        by (rule "1.IH"(1) [OF True u]) (use "1.prems" in simp)
      also have "\<dots> = fh j"
        using "1.prems" by simp
      finally show ?thesis .
    next
      case n: False
      have "fHeightLoop W sm fh x j
              = fHeightLoop W sm (fh(x := fh (x - 1) + sm (x - 1))) (x + 1) j"
        by (simp only: fHeightLoop_step [where x = x and W = W and sm = sm and fh = fh, OF True n])
      also have "\<dots> = (fh(x := fh (x - 1) + sm (x - 1))) j"
        by (rule "1.IH"(2) [OF True n]) (use "1.prems" in simp)
      also have "\<dots> = fh j"
        using "1.prems" by simp
      finally show ?thesis .
    qed
  qed
qed

lemma fHeightLoop_flat:
  assumes "1 \<le> x"
    and "\<forall>i. x - 1 \<le> i \<and> i < W - 1 \<longrightarrow> sm i = 0"
    and "\<forall>i. x < i \<and> i < W \<longrightarrow> fh i \<noteq> - 1"
  shows "fHeightLoop W sm fh x j = (if x \<le> j \<and> j < W then fh (x - 1) else fh j)"
  using assms
proof (induction W sm fh x rule: fHeightLoop.induct)
  case (1 W sm fh x)
  show ?case
  proof (cases "x < W")
    case False
    then show ?thesis by (simp add: fHeightLoop_done)
  next
    case True
    have nu: "\<not> (sm x = 0 \<and> x < W - 1 \<and> fh (x + 1) = - 1)"
      using "1.prems"(3) by auto
    have z: "sm (x - 1) = 0"
      using "1.prems"(1,2) True by auto
    let ?fh = "fh(x := fh (x - 1) + sm (x - 1))"
    have "fHeightLoop W sm fh x j = fHeightLoop W sm ?fh (x + 1) j"
      by (simp only: fHeightLoop_step [where x = x and W = W and sm = sm and fh = fh, OF True nu])
    also have "\<dots> = (if x + 1 \<le> j \<and> j < W then ?fh (x + 1 - 1) else ?fh j)"
    proof (rule "1.IH"(2) [OF True nu])
      show "1 \<le> x + 1" by simp
      show "\<forall>i. x + 1 - 1 \<le> i \<and> i < W - 1 \<longrightarrow> sm i = 0"
        using "1.prems"(2) by auto
      show "\<forall>i. x + 1 < i \<and> i < W \<longrightarrow> ?fh i \<noteq> - 1"
        using "1.prems"(3) by auto
    qed
    also have "\<dots> = (if x \<le> j \<and> j < W then fh (x - 1) else fh j)"
      using z True by auto
    finally show ?thesis .
  qed
qed


lemma buildHeightMap_columns:
  assumes "readVertexList file lw = Inr (v # vs)"
    and "buildSlopeMap sm0 fh0 (v # vs) lw = Inr (sm, fh1)"
    and "vertex_X v = 0"
  shows "\<exists>hm. buildHeightMap fh0 sm0 file lw = Inr (hm, v # vs) \<and> length hm = unat lw
           \<and> (\<forall>i < unat lw. hm ! i = word_of_int
                  \<lceil>fHeightLoop (unat lw) sm (fh1(0 := real_of_int (vertex_Y v))) 1 i\<rceil>)"
  using buildHeightMap_Inr [OF assms] by simp

text \<open>
  C5. In the file \<open>"0 0\n0 10\n899 0\n"\<close> the vertices \<open>(0, 0)\<close> and \<open>(0, 10)\<close> form a vertical
  run at x = 0 with maximum y = 10, followed by the slope \<open>-10/899\<close> to \<open>(899, 0)\<close>. The claim
  gives column 0 the height 10 and column 1 the height \<open>ceil (10 - 10/899) = 10\<close>.
  \<open>buildSlopeMap\<close> does record 10 at column 0, but \<open>buildFHeightMap\<close> then overwrites
  column 0 with the y of the first vertex and its loop, which starts at column 1, never
  meets the marker: both columns end at height 0, whatever the arrays held on entry.
\<close>

theorem C5_run_at_column_0_keeps_first_y:
  "\<exists>hm. buildHeightMap fh0 sm0 (Some [(0, 0), (0, 10), (899, 0)]) 900
           = Inr (hm, [\<lparr>vertex_X = 0, vertex_Y = 0\<rparr>, \<lparr>vertex_X = 0, vertex_Y = 10\<rparr>,
                       \<lparr>vertex_X = 899, vertex_Y = 0\<rparr>])
         \<and> hm ! 0 = 0 \<and> hm ! 1 = 0"
proof -
  let ?vs = "[\<lparr>vertex_X = 0, vertex_Y = 10\<rparr>, \<lparr>vertex_X = 899, vertex_Y = 0\<rparr>]"
  let ?v = "\<lparr>vertex_X = 0, vertex_Y = 0\<rparr>"
  define sm where "sm = fillSlope (sm0(0 := 0)) 1 899 (- 10 / 899)"
  define fh1 where "fh1 = fh0(0 := 10, 1 := - 1)"
  define fh where "fh = fh1(0 := real_of_int (vertex_Y ?v))"
  have r: "readVertexList (Some [(0, 0), (0, 10), (899, 0)]) 900 = Inr (?v # ?vs)"
    by (simp add: readVertexList_def)
  have s: "buildSlopeMap sm0 fh0 (?v # ?vs) 900 = Inr (sm, fh1)"
    by (simp add: buildSlopeMap_def Let_def sm_def fh1_def)
  have sm0': "sm 0 = 0" and sm1: "sm 1 = - 10 / 899"
    by (simp_all add: sm_def fillSlope_apply)
  have f0: "fHeightLoop 900 sm fh 1 0 = 0"
    by (simp add: fHeightLoop_below fh_def)
  have n1: "\<not> (sm 1 = 0 \<and> 1 < (900::nat) - 1 \<and> fh (1 + 1) = - 1)"
    using sm1 by simp
  have "fHeightLoop 900 sm fh 1 = fHeightLoop 900 sm (fh(1 := fh (1 - 1) + sm (1 - 1))) (1 + 1)"
    by (rule fHeightLoop_step [where x = 1 and W = 900 and sm = sm and fh = fh, OF _ n1]) simp
  then have f1: "fHeightLoop 900 sm fh 1 1 = 0"
    by (simp add: fHeightLoop_below sm0' fh_def)
  from buildHeightMap_columns [OF r s] f0 f1 show ?thesis
    unfolding fh_def by auto
qed


lemmas fHeightLoop_steps_2_to_9 =
  fHeightLoop_step [where x = 2] fHeightLoop_step [where x = 3] fHeightLoop_step [where x = 4]
  fHeightLoop_step [where x = 5] fHeightLoop_step [where x = 6] fHeightLoop_step [where x = 7]
  fHeightLoop_step [where x = 8] fHeightLoop_step [where x = 9]

text \<open>
  C6. The file \<open>"0 0\n10 20\n10 0\n899 0\n"\<close> is accepted as it is (it starts at x = 0 and
  ends at \<open>(899, 0)\<close>, the y of the first vertex). The terrain climbs to 20 at column 10
  and drops back to 0 there. \<open>buildSlopeMap\<close> records the maximum 20 at column 10 and the
  slope 0 of the segment from \<open>(10, 0)\<close> to \<open>(899, 0)\<close>; \<open>buildFHeightMap\<close> continues from
  20 with that slope, so every column from 10 on has height 20: column 0 is 0 and
  column 899 is 20. The hypothesis is on the uninitialised content of \<open>fHeightMap\<close>: no
  cell holds the marker \<open>-1.0\<close> by accident. All values are integers, exact in \<open>float\<close>.
\<close>

theorem C6_drop_breaks_wrap_continuity:
  assumes g: "\<forall>i. fh0 i \<noteq> - 1"
  shows "\<exists>hm. buildHeightMap fh0 sm0 (Some [(0, 0), (10, 20), (10, 0), (899, 0)]) 900
           = Inr (hm, [\<lparr>vertex_X = 0, vertex_Y = 0\<rparr>, \<lparr>vertex_X = 10, vertex_Y = 20\<rparr>,
                       \<lparr>vertex_X = 10, vertex_Y = 0\<rparr>, \<lparr>vertex_X = 899, vertex_Y = 0\<rparr>])
         \<and> length hm = 900 \<and> hm ! 0 = 0 \<and> hm ! 899 = 20"
proof -
  let ?vs = "[\<lparr>vertex_X = 10, vertex_Y = 20\<rparr>, \<lparr>vertex_X = 10, vertex_Y = 0\<rparr>,
              \<lparr>vertex_X = 899, vertex_Y = 0\<rparr>]"
  let ?v = "\<lparr>vertex_X = 0, vertex_Y = 0\<rparr>"
  define sm where "sm = fillSlope ((fillSlope sm0 0 10 2)(10 := 0)) 11 899 0"
  define fh1 where "fh1 = fh0(10 := 20, 11 := - 1)"
  define fh where "fh = fh1(0 := real_of_int (vertex_Y ?v))"
  define fh12 where "fh12 = fh(1 := 2, 2 := 4, 3 := 6, 4 := 8, 5 := 10, 6 := 12, 7 := 14,
                              8 := 16, 9 := 18, 11 := 20)"
  have r: "readVertexList (Some [(0, 0), (10, 20), (10, 0), (899, 0)]) 900 = Inr (?v # ?vs)"
    by (simp add: readVertexList_def)
  have s: "buildSlopeMap sm0 fh0 (?v # ?vs) 900 = Inr (sm, fh1)"
    by (simp add: buildSlopeMap_def Let_def sm_def fh1_def)
  have smv: "sm i = (if 10 \<le> i \<and> i < 899 then 0 else if i < 10 then 2 else sm0 i)" for i
    by (simp add: sm_def fillSlope_apply)
  have f0: "fHeightLoop 900 sm fh 1 0 = 0"
    by (simp add: fHeightLoop_below fh_def)
  have n1: "\<not> (sm 1 = 0 \<and> 1 < (900::nat) - 1 \<and> fh (1 + 1) = - 1)"
    by (simp add: smv)
  have "fHeightLoop 900 sm fh 1 = fHeightLoop 900 sm (fh(1 := fh (1 - 1) + sm (1 - 1))) (1 + 1)"
    by (rule fHeightLoop_step [where x = 1 and W = 900 and sm = sm and fh = fh, OF _ n1]) simp
  also have "\<dots> = fHeightLoop 900 sm (fh(1 := 2)) 2"
    by (simp add: smv fh_def numeral_2_eq_2)
  also have "\<dots> = fHeightLoop 900 sm
         (fh(1 := 2, 2 := 4, 3 := 6, 4 := 8, 5 := 10, 6 := 12, 7 := 14, 8 := 16, 9 := 18)) 10"
    by (simp add: fHeightLoop_steps_2_to_9 smv)
  also have "\<dots> = fHeightLoop 900 sm fh12 12"
    unfolding fh12_def
    by (subst fHeightLoop_step_undefined) (simp_all add: smv fh_def fh1_def)
  finally have e: "fHeightLoop 900 sm fh 1 = fHeightLoop 900 sm fh12 12" .
  have "fHeightLoop 900 sm fh12 12 899 = (if 12 \<le> (899::nat) \<and> (899::nat) < 900 then fh12 (12 - 1) else fh12 899)"
  proof (rule fHeightLoop_flat)
    show "1 \<le> (12::nat)" by simp
    show "\<forall>i. 12 - 1 \<le> i \<and> i < 900 - 1 \<longrightarrow> sm i = 0"
      by (simp add: smv)
    show "\<forall>i. 12 < i \<and> i < 900 \<longrightarrow> fh12 i \<noteq> - 1"
      using g by (simp add: fh12_def fh_def fh1_def)
  qed
  then have f899: "fHeightLoop 900 sm fh 1 899 = 20"
    unfolding e by (simp add: fh12_def)
  from buildHeightMap_columns [OF r s] f0 f899 show ?thesis
    unfolding fh_def by auto
qed


theorem C6_drop_breaks_wrap_continuity_witness:
  "(\<forall>i. (\<lambda>_. 0 :: real) i \<noteq> - 1)
   \<and> (\<exists>hm. buildHeightMap (\<lambda>_. 0) (\<lambda>_. 0) (Some [(0, 0), (10, 20), (10, 0), (899, 0)]) 900
           = Inr (hm, [\<lparr>vertex_X = 0, vertex_Y = 0\<rparr>, \<lparr>vertex_X = 10, vertex_Y = 20\<rparr>,
                       \<lparr>vertex_X = 10, vertex_Y = 0\<rparr>, \<lparr>vertex_X = 899, vertex_Y = 0\<rparr>])
         \<and> length hm = 900 \<and> hm ! 0 = 0 \<and> hm ! 899 = 20)"
  using C6_drop_breaks_wrap_continuity [of "\<lambda>_. 0" "\<lambda>_. 0"] by simp

lemma strips_of_flat_level:
  "findLandingStrips main_firstFlat
     [\<lparr>vertex_X = 0, vertex_Y = 0\<rparr>, \<lparr>vertex_X = 899, vertex_Y = 0\<rparr>]
   = [\<lparr>flat_X = 0, flat_Y = 0, flat_length = 899, scoreModifier = 0\<rparr>]"
  by code_simp

text \<open>
  C9. The file \<open>"0 0\n899 0\n"\<close> in a level of width 900: the vertex list is the two
  vertices read, the height map is 900 zeros (when no cell of the uninitialised
  \<open>fHeightMap\<close> holds the marker \<open>-1.0\<close>), and there is exactly one strip, from x = 0 with
  length 899. Its score modifier is 0, not the 1 of the claim: \<open>5 - (899 - 24) / 8 = -104\<close>
  is stored as 65432 and reset to 0 by the test \<open>scoreModifier > TOP_SCORE_TIER\<close>.
\<close>

theorem C9_flat_level_strip_has_tier_0:
  assumes g: "\<forall>i. fh0 i \<noteq> - 1"
  shows "\<exists>st. initializeGameState fh0 sm0 main_firstFlat (Some [(0, 0), (899, 0)]) = Inr st
           \<and> firstVertex (terrain st)
               = [\<lparr>vertex_X = 0, vertex_Y = 0\<rparr>, \<lparr>vertex_X = 899, vertex_Y = 0\<rparr>]
           \<and> heightMap (terrain st) = replicate 900 0
           \<and> firstFlat (terrain st)
               = [\<lparr>flat_X = 0, flat_Y = 0, flat_length = 899, scoreModifier = 0\<rparr>]"
proof -
  let ?vs = "[\<lparr>vertex_X = 899, vertex_Y = 0\<rparr>]"
  let ?v = "\<lparr>vertex_X = 0, vertex_Y = 0\<rparr>"
  define sm where "sm = fillSlope sm0 0 899 0"
  define fh where "fh = fh0(0 := real_of_int (vertex_Y ?v))"
  have r: "readVertexList (Some [(0, 0), (899, 0)]) 900 = Inr (?v # ?vs)"
    by (simp add: readVertexList_def)
  have s: "buildSlopeMap sm0 fh0 (?v # ?vs) 900 = Inr (sm, fh0)"
    by (simp add: buildSlopeMap_def Let_def sm_def)
  have f: "fHeightLoop 900 sm fh 1 j = (if 1 \<le> j \<and> j < 900 then fh (1 - 1) else fh j)" for j
  proof (rule fHeightLoop_flat)
    show "1 \<le> (1::nat)" by simp
    show "\<forall>i. 1 - 1 \<le> i \<and> i < 900 - 1 \<longrightarrow> sm i = 0"
      by (simp add: sm_def fillSlope_apply)
    show "\<forall>i. 1 < i \<and> i < 900 \<longrightarrow> fh i \<noteq> - 1"
      using g by (simp add: fh_def)
  qed
  have z: "fHeightLoop 900 sm fh 1 j = 0" if "j < 900" for j
    using that f [of j] by (simp add: fh_def)
  from buildHeightMap_columns [OF r s] obtain hm where
    b: "buildHeightMap fh0 sm0 (Some [(0, 0), (899, 0)]) 900 = Inr (hm, ?v # ?vs)"
    and len: "length hm = 900"
    and col: "\<forall>i<900. hm ! i = word_of_int \<lceil>fHeightLoop 900 sm fh 1 i\<rceil>"
    unfolding fh_def by auto
  have "hm = replicate 900 0"
    using len col z by (simp add: list_eq_iff_nth_eq)
  with b strips_of_flat_level show ?thesis
    by (simp add: initializeGameState_def LEVEL_WIDTH_def)
qed

theorem C9_flat_level_strip_has_tier_0_witness:
  "(\<forall>i. (\<lambda>_. 0 :: real) i \<noteq> - 1)
   \<and> (\<exists>st. initializeGameState (\<lambda>_. 0) (\<lambda>_. 0) main_firstFlat (Some [(0, 0), (899, 0)]) = Inr st
           \<and> firstVertex (terrain st)
               = [\<lparr>vertex_X = 0, vertex_Y = 0\<rparr>, \<lparr>vertex_X = 899, vertex_Y = 0\<rparr>]
           \<and> heightMap (terrain st) = replicate 900 0
           \<and> firstFlat (terrain st)
               = [\<lparr>flat_X = 0, flat_Y = 0, flat_length = 899, scoreModifier = 0\<rparr>])"
  using C9_flat_level_strip_has_tier_0 [of "\<lambda>_. 0" "\<lambda>_. 0"] by simp

text \<open>
  A file whose last vertex already stands at \<open>x = levelWidth - 1\<close> with a y other than the
  first vertex's: \<open>readVertexList\<close> appends the closing vertex at the same x, the list
  ends in a vertical run, and the inner loop of \<open>buildSlopeMap\<close> reads
  \<open>current->next->X\<close> at the last vertex. No height map is built.
\<close>

lemma closing_run_reads_through_null:
  "readVertexList (Some [(0, 0), (899, 5)]) 900
     = Inr [\<lparr>vertex_X = 0, vertex_Y = 0\<rparr>, \<lparr>vertex_X = 899, vertex_Y = 5\<rparr>,
            \<lparr>vertex_X = 899, vertex_Y = 0\<rparr>]
   \<and> buildHeightMap fh0 sm0 (Some [(0, 0), (899, 5)]) 900 = Inl NULL_DEREFERENCE"
  by (simp add: readVertexList_def buildHeightMap_def buildSlopeMap_def Let_def)

subsection \<open>Collision detection\<close>

lemma heightAt_in_range:
  "n < length (heightMap (terrain state))
     \<Longrightarrow> heightAt state (int n) = Some (heightMap (terrain state) ! n)"
  by (simp add: heightAt_def)

lemma sampleHit_in_range:
  assumes "length (heightMap (terrain state)) = unat (levelWidth state)"
    and "n < unat (levelWidth state)"
  shows "sampleHit state (int n)
           = Some (lander_Y (lander state) \<le> heightMap (terrain state) ! n)"
proof -
  from assms(2) have "int n < int (unat (levelWidth state))"
    by (simp only: of_nat_less_iff)
  then have "int n < uint (levelWidth state)"
    by simp
  with assms show ?thesis
    by (simp add: sampleHit_def heightAt_in_range)
qed

lemma landingKind_in_range:
  assumes "length (heightMap (terrain state)) = unat (levelWidth state)"
    and "a < unat (levelWidth state)" "b < unat (levelWidth state)" "c < unat (levelWidth state)"
  shows "landingKind state (int a) (int b) (int c) =
           Some (if isLandingSpeed state
                    \<and> heightMap (terrain state) ! a = heightMap (terrain state) ! b
                    \<and> heightMap (terrain state) ! a = heightMap (terrain state) ! c
                 then 1 else 2)"
  using assms by (simp add: landingKind_def isFlatLand_def heightAt_in_range)

lemma sqrt_nine_quarters: "sqrt (0 * 0 + 3 / 2 * (3 / 2) :: real) = 3 / 2"
proof -
  have "sqrt ((3 / 2) * (3 / 2) :: real) = \<bar>3 / 2\<bar>"
    by (rule real_sqrt_abs2)
  then show ?thesis by simp
qed

lemma getVelocity_fast_on_flat: "getVelocity fast_on_flat_state = 3 / 2"
  using sqrt_nine_quarters by (simp add: getVelocity_def fast_on_flat_state_def)

lemma isLandingSpeed_fast_on_flat: "isLandingSpeed fast_on_flat_state"
  by (simp add: isLandingSpeed_def getVelocity_fast_on_flat int_of_double_def
        LANDING_THRESHOLD_def)

text \<open>
  C3. The claim makes every collision at a speed above 1 a crash. In
  \<open>fast_on_flat_state\<close> the lander touches flat ground (the three sampled heights are
  all 0) at speed \<open>sqrt (0 + 9/4) = 3/2 > 1\<close>, and \<open>collisionDetected\<close> stores 1 (landed)
  and plays the landing sound: \<open>isLandingSpeed\<close> compares \<open>(int)(getVelocity(state))\<close>, the
  speed truncated to 1, with the threshold. (3/2 and 9/4 are exact in \<open>float\<close> and
  \<open>double\<close>.)
\<close>

theorem C3_landed_at_speed_above_threshold:
  "getVelocity fast_on_flat_state = 3 / 2
   \<and> real_of_int LANDING_THRESHOLD < getVelocity fast_on_flat_state
   \<and> collisionDetected fast_on_flat_state 0 = Some (True, 1, Some Ding)"
  using isLandingSpeed_fast_on_flat getVelocity_fast_on_flat
  by (simp add: collisionDetected_def fast_on_flat_state_def sampleHit_def heightAt_def
        landingKind_def isFlatLand_def Let_def LANDING_THRESHOLD_def)

text \<open>
  The state that \<open>initializeGameState\<close> builds has a positive level width, a height map of
  that many columns and the lander inside the level. \<open>applyTick\<close> wraps \<open>realX\<close> into
  \<open>[0, levelWidth)\<close> before it rounds, and both resets put the lander back at x = 100, so
  every state that \<open>main\<close> passes to \<open>collisionDetected\<close> has these three properties.
\<close>

lemma initializeGameState_wellformed:
  "initializeGameState fh0 sm0 flat0 file = Inr state
     \<Longrightarrow> levelWidth state \<noteq> 0
         \<and> length (heightMap (terrain state)) = unat (levelWidth state)
         \<and> lander_X (lander state) < levelWidth state"
  by (auto simp: initializeGameState_def buildHeightMap_def LEVEL_WIDTH_def LANDER_X_START_def
           split: sum.splits prod.splits)

text \<open>
  Outside that invariant the source and the contract part: the source does not reduce
  \<open>leftX\<close>, so at \<open>lander.x = levelWidth\<close> its range guard skips the left sample, where
  the contract reads column 0.
\<close>

lemma left_sample_skipped_outside_level:
  "spec_first_hit offmap_state = Some (LeftSample, 0)
   \<and> collisionDetected offmap_state 0 = Some (False, 0, None)"
  by (simp add: spec_first_hit_def spec_samples_def collisionDetected_def offmap_state_def
        sampleHit_def heightAt_def Let_def)

text \<open>
  C4. On every state with a positive level width, a height map of that many columns and
  the lander's x below the level width, \<open>collisionDetected\<close> is exactly the contract of the
  specification: the samples \<open>x mod levelWidth\<close>, \<open>(x + length / 2) mod levelWidth\<close> and
  \<open>(x + length) mod levelWidth\<close> are tried in this order and the first one with
  \<open>lander.y \<le> heightMap[sample]\<close> registers the collision; the result, the buffer and the
  sound are those of the contract.
\<close>

theorem C4_detection_samples_in_order:
  assumes w: "levelWidth state \<noteq> 0"
    and l: "length (heightMap (terrain state)) = unat (levelWidth state)"
    and x: "lander_X (lander state) < levelWidth state"
  shows "collisionDetected state landingType = Some (spec_detect state landingType)"
proof -
  define W where "W = unat (levelWidth state)"
  define xl where "xl = unat (lander_X (lander state))"
  define len where "len = unat (lander_length (lander state))"
  define xm where "xm = (xl + len div 2) mod W"
  define xr where "xr = (xl + len) mod W"
  have W0: "0 < W" using w unfolding W_def by (simp add: unat_gt_0)
  have xlW: "xl < W" using x unfolding W_def xl_def by (simp add: word_less_nat_alt)
  have xmW: "xm < W" and xrW: "xr < W" using W0 unfolding xm_def xr_def by simp_all
  have u: "uint (levelWidth state) = int W" "uint (lander_X (lander state)) = int xl"
    "uint (lander_length (lander state)) = int len"
    unfolding W_def xl_def len_def by simp_all
  have m: "(int xl + int len div 2) mod int W = int xm" "(int xl + int len) mod int W = int xr"
    unfolding xm_def xr_def by (simp_all add: zmod_int zdiv_int)
  have s: "spec_samples state = [(LeftSample, xl), (MiddleSample, xm), (RightSample, xr)]"
    using xlW
    unfolding spec_samples_def Let_def W_def [symmetric] xl_def [symmetric] len_def [symmetric]
      xm_def xr_def
    by simp
  have k: "landingKind state (int xl) (int xm) (int xr) = Some (sampled_kind state)"
    using landingKind_in_range [OF l, of xl xm xr] xlW xmW xrW
    unfolding sampled_kind_def s W_def [symmetric] by (simp add: Let_def)
  have h: "sampleHit state (int n)
             = Some (lander_Y (lander state) \<le> heightMap (terrain state) ! n)"
    if "n < W" for n
    using sampleHit_in_range [OF l] that unfolding W_def by simp
  have hl: "sampleHit state (int xl)
              = Some (lander_Y (lander state) \<le> heightMap (terrain state) ! xl)"
    and hm: "sampleHit state (int xm)
              = Some (lander_Y (lander state) \<le> heightMap (terrain state) ! xm)"
    and hr: "sampleHit state (int xr)
              = Some (lander_Y (lander state) \<le> heightMap (terrain state) ! xr)"
    by (rule h [OF xlW], rule h [OF xmW], rule h [OF xrW])
  have c: "collisionDetected state landingType =
      (if lander_Y (lander state) \<le> heightMap (terrain state) ! xl
       then Some (True, sampled_kind state, Some (if sampled_kind state = 1 then Ding else Boom))
       else if lander_Y (lander state) \<le> heightMap (terrain state) ! xm
       then Some (True, sampled_kind state, Some (if sampled_kind state = 1 then Ding else Boom))
       else if lander_Y (lander state) \<le> heightMap (terrain state) ! xr
       then Some (True, sampled_kind state, None)
       else Some (False, landingType, None))"
    unfolding collisionDetected_def Let_def u m hl hm hr k using w by simp
  have d: "spec_first_hit state =
      (if lander_Y (lander state) \<le> heightMap (terrain state) ! xl then Some (LeftSample, xl)
       else if lander_Y (lander state) \<le> heightMap (terrain state) ! xm
       then Some (MiddleSample, xm)
       else if lander_Y (lander state) \<le> heightMap (terrain state) ! xr
       then Some (RightSample, xr)
       else None)"
    unfolding spec_first_hit_def s by simp
  show ?thesis
    unfolding c spec_detect_def d by simp
qed

text \<open>
  The theorem at \<open>wrap_state\<close>: \<open>x + length = 910 > 900\<close>, the left (890) and middle (0)
  samples miss, and the right sample is read at \<open>910 mod 900 = 10\<close>, where it hits.
\<close>

theorem C4_detection_samples_in_order_witness:
  "levelWidth wrap_state \<noteq> 0
   \<and> length (heightMap (terrain wrap_state)) = unat (levelWidth wrap_state)
   \<and> lander_X (lander wrap_state) < levelWidth wrap_state
   \<and> spec_first_hit wrap_state = Some (RightSample, 10)
   \<and> collisionDetected wrap_state 7 = Some (True, 2, None)"
proof -
  have a: "levelWidth wrap_state \<noteq> 0"
    "length (heightMap (terrain wrap_state)) = unat (levelWidth wrap_state)"
    "lander_X (lander wrap_state) < levelWidth wrap_state"
    by (simp_all add: wrap_state_def)
  have h: "spec_first_hit wrap_state = Some (RightSample, 10)"
    by (simp add: spec_first_hit_def spec_samples_def wrap_state_def Let_def nth_append)
  have k: "sampled_kind wrap_state = 2"
    by (simp add: sampled_kind_def spec_samples_def wrap_state_def Let_def nth_append)
  from C4_detection_samples_in_order [OF a, of 7] a h k show ?thesis
    by (simp add: spec_detect_def)
qed

text \<open>
  C10. Whatever \<open>collisionDetected\<close> returns, the buffer \<open>*landingType\<close> is unchanged when
  the result is false, and holds 1 or 2 when the result is true.
\<close>

theorem C10_landingType_written_only_on_collision:
  assumes "collisionDetected state landingType = Some (c, landingType', played)"
  shows "(\<not> c \<longrightarrow> landingType' = landingType) \<and> (c \<longrightarrow> landingType' = 1 \<or> landingType' = 2)"
  using assms
  by (auto simp: collisionDetected_def Let_def landingKind_def
           split: if_splits Option.bind_splits)

theorem C10_landingType_written_only_on_collision_witness:
  "\<exists>c t p. collisionDetected hovering_state 7 = Some (c, t, p) \<and> \<not> c \<and> t = 7"
proof -
  have e: "collisionDetected hovering_state 7 = Some (False, 7, None)"
    by (simp add: collisionDetected_def hovering_state_def fast_on_flat_state_def
          sampleHit_def heightAt_def Let_def)
  from C10_landingType_written_only_on_collision [OF e] e show ?thesis
    by blast
qed

subsection \<open>Collision resolution\<close>


text \<open>
  The strips are found along the vertex list, so they are listed in x-order whenever the
  vertices are (which \<open>readVertexList\<close> does not enforce, see C2).
\<close>

lemma flatEnd_sorted:
  "sorted (map vertex_X (e # vs))
     \<Longrightarrow> sorted (map vertex_X (fst (flatEnd e vs) # snd (flatEnd e vs)))
         \<and> vertex_X e \<le> vertex_X (fst (flatEnd e vs))"
proof (induction vs arbitrary: e)
  case Nil
  then show ?case by simp
next
  case (Cons n rest)
  show ?case
  proof (cases "vertex_Y n = vertex_Y e")
    case True
    from Cons.prems have "sorted (map vertex_X (n # rest))" and "vertex_X e \<le> vertex_X n"
      by simp_all
    with Cons.IH [of n] True show ?thesis
      by auto
  next
    case False
    with Cons.prems show ?thesis by simp
  qed
qed

lemma findFlats_lower_bound:
  "sorted (map vertex_X (cur # vs)) \<Longrightarrow> f \<in> set (findFlats cur vs)
     \<Longrightarrow> vertex_X cur \<le> flat_X f"
proof (induction cur vs rule: findFlats.induct)
  case (1 cur)
  then show ?case by simp
next
  case (2 cur n rest)
  from "2.prems"(1) have sn: "sorted (map vertex_X (n # rest))" and le: "vertex_X cur \<le> vertex_X n"
    by simp_all
  show ?case
  proof (cases "vertex_Y cur = vertex_Y n")
    case True
    from flatEnd_sorted [OF sn] have
      se: "sorted (map vertex_X (fst (flatEnd n rest) # snd (flatEnd n rest)))"
      and ne: "vertex_X n \<le> vertex_X (fst (flatEnd n rest))"
      by simp_all
    from "2.prems"(2) True consider "flat_X f = vertex_X cur"
      | "f \<in> set (findFlats (fst (flatEnd n rest)) (snd (flatEnd n rest)))"
      by (auto simp: Let_def)
    then show ?thesis
    proof cases
      case 1
      then show ?thesis by simp
    next
      case 2
      from "2.IH"(1) [OF True refl refl se 2] le ne show ?thesis
        by simp
    qed
  next
    case False
    with "2.prems"(2) have "f \<in> set (findFlats n rest)" by simp
    from "2.IH"(2) [OF False sn this] le show ?thesis by simp
  qed
qed

lemma findFlats_sorted:
  "sorted (map vertex_X (cur # vs)) \<Longrightarrow> sorted (map flat_X (findFlats cur vs))"
proof (induction cur vs rule: findFlats.induct)
  case (1 cur)
  then show ?case by simp
next
  case (2 cur n rest)
  from "2.prems" have sn: "sorted (map vertex_X (n # rest))" and le: "vertex_X cur \<le> vertex_X n"
    by simp_all
  show ?case
  proof (cases "vertex_Y cur = vertex_Y n")
    case True
    from flatEnd_sorted [OF sn] have
      se: "sorted (map vertex_X (fst (flatEnd n rest) # snd (flatEnd n rest)))"
      and ne: "vertex_X n \<le> vertex_X (fst (flatEnd n rest))"
      by simp_all
    have "vertex_X cur \<le> flat_X f"
      if "f \<in> set (findFlats (fst (flatEnd n rest)) (snd (flatEnd n rest)))" for f
      using findFlats_lower_bound [OF se that] le ne by simp
    with "2.IH"(1) [OF True refl refl se] True show ?thesis
      by (auto simp: Let_def)
  next
    case False
    with "2.IH"(2) [OF False sn] show ?thesis by simp
  qed
qed

lemma findLandingStrips_sorted:
  "vs \<noteq> [] \<Longrightarrow> sorted (map vertex_X vs)
     \<Longrightarrow> sorted (map flat_X (findLandingStrips flat0 vs))"
  by (cases vs) (simp_all add: findLandingStrips_def findFlats_sorted)








end
